theory Spec2Isabelle
  imports Main "HOL-Library.AList" "HOL-Library.Sublist"
begin

section \<open>Errors\<close>

text \<open>
  Go's \<^verbatim>\<open>error\<close> values, as far as the plugin package builds and inspects them.
  \<^item> \<open>ErrorString s\<close> is \<^verbatim>\<open>errors.New(s)\<close>;
  \<^item> \<open>ErrUnexpectedName\<close> and \<open>ErrUnknownCommand\<close> are the two package-level sentinel
    variables of plugin.go (compared by identity in Go, so they are constructors of
    their own and not \<open>ErrorString\<close> values);
  \<^item> \<open>ProtoError s\<close> is an error of the protobuf library (\<^verbatim>\<open>anypb.New\<close>,
    \<^verbatim>\<open>UnmarshalNew\<close>, \<^verbatim>\<open>UnmarshalTo\<close>) with text \<open>s\<close>;
  \<^item> \<open>StatusError c m\<close> is \<^verbatim>\<open>status.Error(c, m)\<close> for a code other than \<open>OK\<close>;
  \<^item> \<open>Errorf ps\<close> is \<^verbatim>\<open>fmt.Errorf(format, args...)\<close>, the format string and its operands
    kept as the list of their pieces: \<open>Lit s\<close> a literal part of the format, \<open>Q s\<close> an
    operand of the verb \<^verbatim>\<open>%q\<close>, \<open>W e\<close> an operand of the verb \<^verbatim>\<open>%w\<close>;
  \<^item> \<open>JoinError es\<close> is the value \<^verbatim>\<open>errors.Join\<close> returns for the non-nil errors \<open>es\<close>.
  A Go \<^verbatim>\<open>error\<close> that may be nil is an \<open>error option\<close>.
\<close>

datatype codes = OK | Canceled | Unknown | InvalidArgument | DeadlineExceeded | NotFound
  | AlreadyExists | PermissionDenied | ResourceExhausted | FailedPrecondition | Aborted
  | OutOfRange | Unimplemented | Internal | Unavailable | DataLoss | Unauthenticated

datatype 'e piece = Lit string | Q string | W 'e

datatype error =
    ErrorString string
  | ErrUnexpectedName
  | ErrUnknownCommand
  | ProtoError string
  | StatusError codes string
  | Errorf "error piece list"
  | JoinError "error list"

text \<open>
  The verb \<^verbatim>\<open>%q\<close> (\<^verbatim>\<open>strconv.Quote\<close>): the string in double quotes, a double quote
  and a backslash escaped, the control characters of ASCII written as their escapes.
  Bytes from 0x80 on are copied as they are, which is what Go does for the bytes of a
  printable rune in valid UTF-8.
\<close>

definition hex_digits :: "nat \<Rightarrow> string" where
  "hex_digits n = [''0123456789abcdef'' ! (n div 16 mod 16), ''0123456789abcdef'' ! (n mod 16)]"

definition quote_byte :: "char \<Rightarrow> string" where
  "quote_byte c =
     (if c = CHR 0x22 \<or> c = CHR 0x5C then [CHR 0x5C, c]
      else if c = CHR 0x07 then [CHR 0x5C, CHR ''a'']
      else if c = CHR 0x08 then [CHR 0x5C, CHR ''b'']
      else if c = CHR 0x0C then [CHR 0x5C, CHR ''f'']
      else if c = CHR 0x0A then [CHR 0x5C, CHR ''n'']
      else if c = CHR 0x0D then [CHR 0x5C, CHR ''r'']
      else if c = CHR 0x09 then [CHR 0x5C, CHR ''t'']
      else if c = CHR 0x0B then [CHR 0x5C, CHR ''v'']
      else if (of_char c :: nat) < 0x20 \<or> c = CHR 0x7F
        then [CHR 0x5C, CHR ''x''] @ hex_digits (of_char c)
      else [c])"

definition quote :: "string \<Rightarrow> string" where
  "quote s = [CHR 0x22] @ concat (map quote_byte s) @ [CHR 0x22]"

text \<open>The method \<^verbatim>\<open>Error()\<close>: the text of an error. \<^verbatim>\<open>errors.Join\<close> separates the
  texts of its errors by a newline.\<close>

fun join_lines :: "string list \<Rightarrow> string" where
  "join_lines [] = []"
| "join_lines [x] = x"
| "join_lines (x # y # ys) = x @ [CHR 0x0A] @ join_lines (y # ys)"

fun Error :: "error \<Rightarrow> string" where
  "Error (ErrorString s) = s"
| "Error ErrUnexpectedName = ''unexpected plugin name''"
| "Error ErrUnknownCommand = ''unknown command''"
| "Error (ProtoError s) = s"
| "Error (StatusError c m) = m"
| "Error (Errorf ps) =
     concat (map (\<lambda>p. case p of Lit s \<Rightarrow> s | Q s \<Rightarrow> quote s | W e \<Rightarrow> Error e) ps)"
| "Error (JoinError es) = join_lines (map Error es)"

text \<open>The errors an error wraps directly (\<^verbatim>\<open>Unwrap\<close>), and \<^verbatim>\<open>errors.Is\<close>: the error is
  the target, or an error it wraps is.\<close>

fun wrapped :: "error \<Rightarrow> error list" where
  "wrapped (Errorf ps) = concat (map (\<lambda>p. case p of W e \<Rightarrow> [e] | _ \<Rightarrow> []) ps)"
| "wrapped (JoinError es) = es"
| "wrapped _ = []"

fun Is :: "error \<Rightarrow> error \<Rightarrow> bool" where
  "Is (Errorf ps) t =
     (Errorf ps = t \<or> list_ex (\<lambda>p. case p of W e \<Rightarrow> Is e t | _ \<Rightarrow> False) ps)"
| "Is (JoinError es) t = (JoinError es = t \<or> list_ex (\<lambda>e. Is e t) es)"
| "Is e t = (e = t)"

text \<open>\<^verbatim>\<open>errors.Join(errs...)\<close>: nil when every argument is nil, else the join of the
  non-nil ones, in order.\<close>

definition errors_Join :: "error option list \<Rightarrow> error option" where
  "errors_Join errs =
     (let es = concat (map (\<lambda>e. case e of None \<Rightarrow> [] | Some x \<Rightarrow> [x]) errs)
      in if es = [] then None else Some (JoinError es))"

text \<open>
  The gRPC status of an error. \<^verbatim>\<open>status.FromError\<close> returns the status of a status
  error and true; for an error that wraps a status error (found as \<^verbatim>\<open>errors.As\<close> finds
  it, the first in depth-first order) the code of that one with the text of the whole
  error, and true; for any other error the code \<open>Unknown\<close> with the text of the error, and
  false. \<^verbatim>\<open>status.Code\<close> is \<open>OK\<close> for nil and the code of \<^verbatim>\<open>FromError\<close> otherwise.
\<close>

fun first_some :: "'a option list \<Rightarrow> 'a option" where
  "first_some [] = None"
| "first_some (None # xs) = first_some xs"
| "first_some (Some x # xs) = Some x"

fun find_status :: "error \<Rightarrow> (codes \<times> string) option" where
  "find_status (StatusError c m) = Some (c, m)"
| "find_status (Errorf ps) =
     first_some (map (\<lambda>p. case p of W e \<Rightarrow> find_status e | _ \<Rightarrow> None) ps)"
| "find_status (JoinError es) = first_some (map find_status es)"
| "find_status _ = None"

definition status_FromError :: "error \<Rightarrow> (codes \<times> string) \<times> bool" where
  "status_FromError err =
     (case err of
        StatusError c m \<Rightarrow> ((c, m), True)
      | _ \<Rightarrow> (case find_status err of
                Some (c, m) \<Rightarrow> ((c, Error err), True)
              | None \<Rightarrow> ((Unknown, Error err), False)))"

definition status_Code :: "error option \<Rightarrow> codes" where
  "status_Code err = (case err of None \<Rightarrow> OK | Some e \<Rightarrow> fst (fst (status_FromError e)))"

section \<open>Envelopes\<close>

text \<open>
  An envelope is a protobuf \<^verbatim>\<open>Any\<close>: a type URL and the wire bytes of a message. A
  \<^verbatim>\<open>*anypb.Any\<close> that may be nil is an \<open>any option\<close>.

  The protobuf library is not part of the repository. What the package uses of it is the
  record \<open>codec\<close> over the messages \<open>'m\<close> (the values of \<^verbatim>\<open>proto.Message\<close>):
  \<^item> \<open>full_name m\<close> is \<^verbatim>\<open>m.ProtoReflect().Descriptor().FullName()\<close>;
  \<^item> \<open>marshal m\<close> is \<^verbatim>\<open>proto.Marshal(m)\<close>: the text of an error, or the wire bytes;
  \<^item> \<open>registered n\<close> holds when the global registry has a message type of the name \<open>n\<close>;
  \<^item> \<open>unmarshal n b\<close> is \<^verbatim>\<open>proto.Unmarshal\<close> of the bytes \<open>b\<close> into a fresh message of the
    type named \<open>n\<close>: the text of an error, or the message.
  The three functions of \<^verbatim>\<open>anypb\<close> follow the library's code on top of these. The texts
  of the library's own errors are abbreviated (the library varies them on purpose).
\<close>

record any =
  type_url :: string
  wire_bytes :: string

record 'm codec =
  full_name :: "'m \<Rightarrow> string"
  marshal :: "'m \<Rightarrow> string + string"
  registered :: "string \<Rightarrow> bool"
  unmarshal :: "string \<Rightarrow> string \<Rightarrow> string + 'm"

definition anypb_New :: "'m codec \<Rightarrow> 'm \<Rightarrow> error + any" where
  "anypb_New cd src =
     (case marshal cd src of
        Inl t \<Rightarrow> Inl (ProtoError t)
      | Inr b \<Rightarrow> Inr \<lparr>type_url = ''type.googleapis.com/'' @ full_name cd src, wire_bytes = b\<rparr>)"

text \<open>The message name of a type URL: what follows its last slash
  (\<^verbatim>\<open>FindMessageByURL\<close>).\<close>

definition url_name :: "string \<Rightarrow> string" where
  "url_name url = rev (takeWhile (\<lambda>c. c \<noteq> CHR ''/'') (rev url))"

definition UnmarshalNew :: "'m codec \<Rightarrow> any option \<Rightarrow> error + 'm" where
  "UnmarshalNew cd src =
     (let url = (case src of None \<Rightarrow> [] | Some x \<Rightarrow> type_url x);
          b = (case src of None \<Rightarrow> [] | Some x \<Rightarrow> wire_bytes x)
      in if url = [] then Inl (ProtoError ''invalid empty type URL'')
         else if \<not> registered cd (url_name url) then Inl (ProtoError ''not found'')
         else (case unmarshal cd (url_name url) b of
                 Inl t \<Rightarrow> Inl (ProtoError t)
               | Inr m \<Rightarrow> Inr m))"

definition MessageIs :: "any \<Rightarrow> string \<Rightarrow> bool" where
  "MessageIs x name =
     (let url = type_url x
      in suffix name url \<and>
         (length url = length name \<or> url ! (length url - length name - 1) = CHR ''/''))"

text \<open>\<^verbatim>\<open>UnmarshalTo(dst)\<close>: the destination is a pointer to a message; the model takes the
  full name \<open>dst\<close> of its type and returns the message the pointer holds afterwards.\<close>

definition UnmarshalTo :: "'m codec \<Rightarrow> any option \<Rightarrow> string \<Rightarrow> error + 'm" where
  "UnmarshalTo cd src dst =
     (case src of
        None \<Rightarrow> Inl (ProtoError ''invalid nil source message'')
      | Some x \<Rightarrow>
          if \<not> MessageIs x dst then Inl (ProtoError ''mismatched message type'')
          else (case unmarshal cd dst (wire_bytes x) of
                  Inl t \<Rightarrow> Inl (ProtoError t)
                | Inr m \<Rightarrow> Inr m))"

section \<open>The plugin API (internal/plugin/api.go)\<close>

text \<open>
  A command handler may have effects of its own; they are the state \<open>'s\<close> it is given and
  returns. The handler map \<^verbatim>\<open>CommandHandlers\<close> is a list of entries with one entry for a
  name: \<^verbatim>\<open>handlers[k] = v\<close> is \<open>AList.update k v\<close> and \<^verbatim>\<open>handlers[k]\<close> is \<open>map_of\<close>.
\<close>

type_synonym 's handler = "any option \<Rightarrow> 's \<Rightarrow> (error + any option) \<times> 's"

type_synonym 's CommandHandlers = "(string \<times> 's handler) list"

record Info =
  Info_Name :: string
  Info_Version :: string
  Info_Commands :: "string list"

record 's API =
  api_info :: Info
  api_handlers :: "'s CommandHandlers"

record StatResponse =
  stat_name :: string
  stat_version :: string
  stat_commands :: "string list"

record ExecuteRequest =
  req_name :: string
  req_input :: "any option"

record ExecuteResponse =
  resp_output :: "any option"

definition NewAPI :: "Info \<Rightarrow> 's CommandHandlers \<Rightarrow> 's API" where
  "NewAPI info handlers = \<lparr>api_info = info, api_handlers = handlers\<rparr>"

definition API_Stat :: "'s API \<Rightarrow> error + StatResponse" where
  "API_Stat api =
     Inr \<lparr>stat_name = Info_Name (api_info api),
          stat_version = Info_Version (api_info api),
          stat_commands = Info_Commands (api_info api)\<rparr>"

definition API_Execute ::
  "'s API \<Rightarrow> ExecuteRequest \<Rightarrow> 's \<Rightarrow> (error + ExecuteResponse) \<times> 's" where
  "API_Execute api request s =
     (if req_name request = []
      then (Inl (StatusError InvalidArgument ''missing command name''), s)
      else (case map_of (api_handlers api) (req_name request) of
              None \<Rightarrow>
                (Inl (StatusError NotFound
                   (''unknown command '' @ quote (req_name request))), s)
            | Some handler \<Rightarrow>
                (case handler (req_input request) s of
                   (Inl err, s') \<Rightarrow> (Inl (StatusError Internal (Error err)), s')
                 | (Inr output, s') \<Rightarrow> (Inr \<lparr>resp_output = output\<rparr>, s'))))"

text \<open>
  The server as gRPC drives it: one \<^verbatim>\<open>*API\<close> and the handlers' state, and a sequence of
  calls of the two operations. A call of Execute returns the new state of the handlers;
  neither method assigns to a field of the \<^verbatim>\<open>API\<close>, and the handler map and the info
  are local to \<^verbatim>\<open>startPlugin\<close>, out of the handlers' reach.
\<close>

datatype call = CallStat | CallExecute ExecuteRequest

datatype reply = StatReply "error + StatResponse" | ExecuteReply "error + ExecuteResponse"

record 's server =
  srv_api :: "'s API"
  srv_state :: 's

fun serve :: "'s server \<Rightarrow> call \<Rightarrow> reply \<times> 's server" where
  "serve srv CallStat = (StatReply (API_Stat (srv_api srv)), srv)"
| "serve srv (CallExecute request) =
     (case API_Execute (srv_api srv) request (srv_state srv) of
        (r, s') \<Rightarrow> (ExecuteReply r, srv\<lparr>srv_state := s'\<rparr>))"

fun serve_all :: "'s server \<Rightarrow> call list \<Rightarrow> reply list \<times> 's server" where
  "serve_all srv [] = ([], srv)"
| "serve_all srv (c # cs) =
     (case serve srv c of
        (r, srv') \<Rightarrow> (case serve_all srv' cs of (rs, srv'') \<Rightarrow> (r # rs, srv'')))"

section \<open>Commands and the plugin's start (plugin.go)\<close>

text \<open>
  \<^verbatim>\<open>Command[Input, Output]\<close>. The type parameter \<open>Input\<close> is the predicate \<open>cmd_Input\<close> on
  messages that the type assertion \<^verbatim>\<open>message.(Input)\<close> tests; \<open>Output\<close> only types the
  result of \<open>Run\<close>. The context argument (cancellation) is not modelled.
\<close>

record ('m, 's) Command =
  cmd_Use :: string
  cmd_Input :: "'m \<Rightarrow> bool"
  cmd_Run :: "'m \<Rightarrow> 's \<Rightarrow> (error + 'm) \<times> 's"

definition Command_Name :: "('m, 's) Command \<Rightarrow> string" where
  "Command_Name ch = cmd_Use ch"

definition Command_Execute :: "'m codec \<Rightarrow> ('m, 's) Command \<Rightarrow> 's handler" where
  "Command_Execute cd ch input s =
     (case UnmarshalNew cd input of
        Inl err \<Rightarrow> (Inl err, s)
      | Inr message \<Rightarrow>
          if \<not> cmd_Input ch message
          then (Inl (Errorf [Lit ''invalid input type for command '', Q (cmd_Use ch)]), s)
          else (case cmd_Run ch message s of
                  (Inl err, s') \<Rightarrow> (Inl err, s')
                | (Inr output, s') \<Rightarrow>
                    (case anypb_New cd output of
                       Inl err \<Rightarrow> (Inl err, s')
                     | Inr out \<Rightarrow> (Inr (Some out), s'))))"

text \<open>The interface \<^verbatim>\<open>CommandHandler\<close>, and a \<^verbatim>\<open>Command\<close> as a value of it.\<close>

record 's CommandHandler =
  ch_Name :: string
  ch_Execute :: "'s handler"

definition as_handler :: "'m codec \<Rightarrow> ('m, 's) Command \<Rightarrow> 's CommandHandler" where
  "as_handler cd ch = \<lparr>ch_Name = Command_Name ch, ch_Execute = Command_Execute cd ch\<rparr>"

record 's Config =
  Config_Name :: string
  Config_Commands :: "'s CommandHandler list"

text \<open>
  \<^verbatim>\<open>startPlugin\<close> up to the registration of the API (lines 134 to 145): the loop over
  \<^verbatim>\<open>config.Commands\<close> is \<open>register\<close>. Listening on the socket and the two goroutines that
  follow are not modelled.
\<close>

fun register ::
  "'s CommandHandler list \<Rightarrow> Info \<times> 's CommandHandlers \<Rightarrow> Info \<times> 's CommandHandlers" where
  "register [] (info, handlers) = (info, handlers)"
| "register (command # rest) (info, handlers) =
     register rest
       (info\<lparr>Info_Commands := Info_Commands info @ [ch_Name command]\<rparr>,
        AList.update (ch_Name command) (ch_Execute command) handlers)"

definition startPlugin :: "'s Config \<Rightarrow> string \<Rightarrow> 's API" where
  "startPlugin config version =
     (case register (Config_Commands config)
             (\<lparr>Info_Name = Config_Name config, Info_Version = version, Info_Commands = []\<rparr>, [])
      of (info, handlers) \<Rightarrow> NewAPI info handlers)"

section \<open>The client (internal/plugin/client.go)\<close>

text \<open>
  The client holds a connection and the generated stub \<^verbatim>\<open>inner\<close>. What the connection and
  the stub answer belongs to the transport and the plugin behind it, so the record holds
  the answers: the result of \<^verbatim>\<open>conn.Close()\<close>, of \<^verbatim>\<open>inner.Stat\<close> and of
  \<^verbatim>\<open>inner.Execute\<close> on a request. \<open>serving_client api\<close> is the client of a connection that
  delivers every request to the server \<open>api\<close> and every answer back.
\<close>

record 's Client =
  conn_Close :: "error option"
  inner_Stat :: "error + StatResponse"
  inner_Execute :: "ExecuteRequest \<Rightarrow> 's \<Rightarrow> (error + ExecuteResponse) \<times> 's"

definition serving_client :: "'s API \<Rightarrow> 's Client" where
  "serving_client api =
     \<lparr>conn_Close = None, inner_Stat = API_Stat api, inner_Execute = API_Execute api\<rparr>"

definition Client_Close :: "'s Client \<Rightarrow> error option" where
  "Client_Close c = conn_Close c"

definition Client_Stat :: "'s Client \<Rightarrow> error + Info" where
  "Client_Stat c =
     (case inner_Stat c of
        Inl err \<Rightarrow> Inl err
      | Inr response \<Rightarrow>
          Inr \<lparr>Info_Name = stat_name response,
               Info_Version = stat_version response,
               Info_Commands = stat_commands response\<rparr>)"

text \<open>\<^verbatim>\<open>Client.Execute\<close>: the output pointer is the full name \<open>output\<close> of its message type;
  \<open>Inr m\<close> is the return of nil with the pointer holding \<open>m\<close>.\<close>

definition Client_Execute ::
  "'m codec \<Rightarrow> 's Client \<Rightarrow> string \<Rightarrow> 'm \<Rightarrow> string \<Rightarrow> 's \<Rightarrow> (error + 'm) \<times> 's" where
  "Client_Execute cd c name input output s =
     (case anypb_New cd input of
        Inl err \<Rightarrow> (Inl err, s)
      | Inr i \<Rightarrow>
          (case inner_Execute c \<lparr>req_name = name, req_input = Some i\<rparr> s of
             (Inl err, s') \<Rightarrow> (Inl err, s')
           | (Inr response, s') \<Rightarrow>
               (case UnmarshalTo cd (resp_output response) output of
                  Inl err \<Rightarrow> (Inl err, s')
                | Inr m \<Rightarrow> (Inr m, s'))))"

section \<open>The plugin handle (plugin.go)\<close>

text \<open>
  \<^verbatim>\<open>exec.Cmd\<close> with its \<^verbatim>\<open>Process\<close> (nil until the command has started); a process holds
  what \<^verbatim>\<open>Signal(syscall.SIGTERM)\<close> returns for it. The field \<^verbatim>\<open>err\<close> of \<^verbatim>\<open>Plugin\<close> is never
  read or written and is left out. What a function does to the world outside is the
  list of its events, in order.
\<close>

record Process =
  Signal_SIGTERM :: "error option"

record Cmd =
  cmd_Path :: string
  cmd_Args :: "string list"
  cmd_Process :: "Process option"

record 's Plugin =
  p_command :: Cmd
  p_client :: "'s Client option"
  p_info :: Info

datatype event = ProcessStarted string | ClientDialed string | ConnClosed | SignalSent

definition Plugin_Close :: "'s Plugin \<Rightarrow> error option \<times> event list" where
  "Plugin_Close p =
     (case (case p_client p of
              None \<Rightarrow> (None, [])
            | Some c \<Rightarrow> (errors_Join [None, Client_Close c], [ConnClosed]))
      of (err, evs) \<Rightarrow>
        (case cmd_Process (p_command p) of
           None \<Rightarrow> (err, evs)
         | Some pr \<Rightarrow> (errors_Join [err, Signal_SIGTERM pr], evs @ [SignalSent])))"

text \<open>\<^verbatim>\<open>filepath.Base\<close> on a system whose separator is the slash.\<close>

definition filepath_Base :: "string \<Rightarrow> string" where
  "filepath_Base path =
     (if path = [] then ''.''
      else (let p = rev (dropWhile (\<lambda>c. c = CHR ''/'') (rev path));
                b = rev (takeWhile (\<lambda>c. c \<noteq> CHR ''/'') (rev p))
            in if b = [] then ''/'' else b))"

text \<open>
  The host's surroundings for one call of \<^verbatim>\<open>Use\<close>: the socket identifier \<^verbatim>\<open>xid.New()\<close>
  gives, what \<^verbatim>\<open>cmd.Start()\<close> returns for the binary at a path (an error, or the started
  process), and what \<^verbatim>\<open>plugin.NewClient(socket)\<close> returns. The wait of one second is
  not modelled. \<^verbatim>\<open>Use\<close> returns a pointer and an error, either of which may be nil.
\<close>

record 's host =
  host_socket :: string
  host_Start :: "string \<Rightarrow> error + Process"
  host_NewClient :: "string \<Rightarrow> error + 's Client"

definition Use :: "'s host \<Rightarrow> string \<Rightarrow> ('s Plugin option \<times> error option) \<times> event list" where
  "Use h path =
     (let socket = host_socket h in
      case host_Start h path of
        Inl err \<Rightarrow>
          ((None, Some (Errorf [Lit ''failed to start plugin at '', Q path, Lit '': '', W err])),
           [])
      | Inr pr \<Rightarrow>
          (let p = \<lparr>p_command =
                     \<lparr>cmd_Path = path, cmd_Args = [path, socket], cmd_Process = Some pr\<rparr>,
                   p_client = None,
                   p_info = \<lparr>Info_Name = [], Info_Version = [], Info_Commands = []\<rparr>\<rparr>;
               name = filepath_Base path
           in case host_NewClient h socket of
                Inl err \<Rightarrow>
                  ((None, Some (Errorf [Lit ''failed to dial plugin '', Q name, Lit '': '', W err])),
                   [ProcessStarted path])
              | Inr c \<Rightarrow>
                  (let p = p\<lparr>p_client := Some c\<rparr> in
                   case Client_Stat c of
                     Inl err \<Rightarrow>
                       (case Plugin_Close p of
                          (cerr, evs) \<Rightarrow>
                            ((None, errors_Join [cerr, Some err]),
                             [ProcessStarted path, ClientDialed socket] @ evs))
                   | Inr info \<Rightarrow>
                       if Info_Name info \<noteq> name
                       then ((None,
                              Some (Errorf [W ErrUnexpectedName, Lit '': expected '', Q name,
                                            Lit '', got '', Q (Info_Name info)])),
                             [ProcessStarted path, ClientDialed socket])
                       else ((Some (p\<lparr>p_info := info\<rparr>), None),
                             [ProcessStarted path, ClientDialed socket]))))"

text \<open>\<^verbatim>\<open>Plugin.Exec\<close>. A handle without a client makes the call panic: the result \<open>None\<close>.\<close>

definition Plugin_Exec ::
  "'m codec \<Rightarrow> 's Plugin \<Rightarrow> string \<Rightarrow> 'm \<Rightarrow> string \<Rightarrow> 's \<Rightarrow> ((error + 'm) \<times> 's) option" where
  "Plugin_Exec cd p name input output s =
     (case p_client p of
        None \<Rightarrow> None
      | Some c \<Rightarrow>
          Some (case Client_Execute cd c name input output s of
                  (Inr m, s') \<Rightarrow> (Inr m, s')
                | (Inl err, s') \<Rightarrow>
                    if status_Code (Some err) = NotFound
                    then (Inl (Errorf [W ErrUnknownCommand, Lit '': '', Q name]), s')
                    else (case status_FromError err of
                            (st, True) \<Rightarrow> (Inl (ErrorString (snd st)), s')
                          | (st, False) \<Rightarrow> (Inl err, s'))))"

definition Plugin_Commands :: "'s Plugin \<Rightarrow> string list" where
  "Plugin_Commands p = Info_Commands (p_info p)"

definition Plugin_Name :: "'s Plugin \<Rightarrow> string" where
  "Plugin_Name p = Info_Name (p_info p)"

definition Plugin_Version :: "'s Plugin \<Rightarrow> string" where
  "Plugin_Version p = Info_Version (p_info p)"

section \<open>Examples\<close>

text \<open>
  A codec to run the definitions on: a message is the full name of its type and its
  content, the wire bytes are the content, and three well-known types are registered.
  \<open>pingpong\<close> is the command of the test plugin, \<open>echo\<close> the command of the example
  plugin; \<open>counting\<close> is a command whose handler counts its calls.
\<close>

definition example_codec :: "(string \<times> string) codec" where
  "example_codec =
     \<lparr>full_name = fst,
      marshal = (\<lambda>m. Inr (snd m)),
      registered = (\<lambda>n. n \<in> set [''google.protobuf.StringValue'',
                                   ''google.protobuf.Timestamp'',
                                   ''google.protobuf.Duration'']),
      unmarshal = (\<lambda>n b. Inr (n, b))\<rparr>"

definition StringValue :: "string \<Rightarrow> string \<times> string" where
  "StringValue v = (''google.protobuf.StringValue'', v)"

definition PingPong :: "string \<times> string \<Rightarrow> 's \<Rightarrow> (error + string \<times> string) \<times> 's" where
  "PingPong input s =
     (if snd input = ''ping'' then (Inr (StringValue ''pong''), s)
      else if snd input = ''pong'' then (Inr (StringValue ''ping''), s)
      else (Inl (Errorf [Lit ''invalid input '', Q (snd input),
                         Lit ('', expected '' @ quote ''ping'' @ '' or '' @ quote ''pong'')]), s))"

definition pingpong :: "(string \<times> string, 's) Command" where
  "pingpong =
     \<lparr>cmd_Use = ''pingpong'',
      cmd_Input = (\<lambda>m. fst m = ''google.protobuf.StringValue''),
      cmd_Run = PingPong\<rparr>"

definition echo :: "string \<Rightarrow> (string \<times> string, 's) Command" where
  "echo name =
     \<lparr>cmd_Use = name,
      cmd_Input = (\<lambda>m. fst m = ''google.protobuf.Timestamp''),
      cmd_Run = (\<lambda>input s. (Inr input, s))\<rparr>"

definition counting :: "(string \<times> string, nat) Command" where
  "counting =
     \<lparr>cmd_Use = ''count'',
      cmd_Input = (\<lambda>m. fst m = ''google.protobuf.StringValue''),
      cmd_Run = (\<lambda>input n. (Inr input, Suc n))\<rparr>"

definition test_plugin :: "'s Config" where
  "test_plugin =
     \<lparr>Config_Name = ''test_plugin'',
      Config_Commands = [as_handler example_codec pingpong]\<rparr>"

definition failing :: "'s handler" where
  "failing input s = (Inl (ErrorString ''EOF''), s)"

definition succeeding :: "'s handler" where
  "succeeding input s =
     (Inr (Some \<lparr>type_url = ''type.googleapis.com/google.protobuf.Duration'',
                 wire_bytes = ''1s''\<rparr>), s)"

definition two_commands :: "unit Config" where
  "two_commands =
     \<lparr>Config_Name = ''test_plugin'',
      Config_Commands = [as_handler example_codec pingpong,
                         as_handler example_codec (echo ''test'')]\<rparr>"

definition same_name_twice :: "unit Config" where
  "same_name_twice =
     \<lparr>Config_Name = ''test_plugin'',
      Config_Commands = [as_handler example_codec (echo ''test''),
                         as_handler example_codec (pingpong\<lparr>cmd_Use := ''test''\<rparr>)]\<rparr>"

text \<open>
  What the round trip of a message through an envelope needs of the codec: \<open>lossless\<close>,
  the message is marshalled and its bytes unmarshal to it again as a message of its own
  type; \<open>resolvable\<close>, its type is registered under its full name (and the name, as
  every full name of protobuf, has no slash).
\<close>

definition lossless :: "'m codec \<Rightarrow> 'm \<Rightarrow> bool" where
  "lossless cd m =
     (case marshal cd m of
        Inl t \<Rightarrow> False
      | Inr b \<Rightarrow> unmarshal cd (full_name cd m) b = Inr m)"

definition resolvable :: "'m codec \<Rightarrow> 'm \<Rightarrow> bool" where
  "resolvable cd m = (registered cd (full_name cd m) \<and> CHR ''/'' \<notin> set (full_name cd m))"

text \<open>Handles: one with the given client and process, and a client whose connection
  fails to close and whose plugin cannot be reached.\<close>

definition example_handle :: "'s Client option \<Rightarrow> Process option \<Rightarrow> 's Plugin" where
  "example_handle c pr =
     \<lparr>p_command = \<lparr>cmd_Path = ''./test_plugin'',
                   cmd_Args = [''./test_plugin'', ''d3f4u9bmvs1g00a7qf10''],
                   cmd_Process = pr\<rparr>,
      p_client = c,
      p_info = \<lparr>Info_Name = [], Info_Version = [], Info_Commands = []\<rparr>\<rparr>"

definition broken_client :: "error \<Rightarrow> 's Client" where
  "broken_client e =
     \<lparr>conn_Close = Some e,
      inner_Stat = Inl (StatusError Unavailable ''connection refused''),
      inner_Execute = (\<lambda>request s. (Inl (StatusError Unavailable ''connection refused''), s))\<rparr>"

text \<open>The handle of the running test plugin; a configuration whose one command has the
  empty name; and a host on which every binary starts and \<^verbatim>\<open>NewClient\<close> returns what
  is given.\<close>

definition test_handle :: "unit Plugin" where
  "test_handle =
     example_handle (Some (serving_client (startPlugin test_plugin ''v0.1.0'')))
       (Some \<lparr>Signal_SIGTERM = None\<rparr>)"

definition nameless :: "unit Config" where
  "nameless =
     \<lparr>Config_Name = ''test_plugin'',
      Config_Commands = [as_handler example_codec (echo [])]\<rparr>"

definition host_of :: "error + 's Client \<Rightarrow> 's host" where
  "host_of c =
     \<lparr>host_socket = ''d3f4u9bmvs1g00a7qf10'',
      host_Start = (\<lambda>path. Inr \<lparr>Signal_SIGTERM = None\<rparr>),
      host_NewClient = (\<lambda>socket. c)\<rparr>"

section \<open>Server-side execution\<close>

text \<open>
  C2. For every request to Execute on the server: an empty command name fails with the
  status InvalidArgument; a name that is not empty and not in the registry fails with
  the status NotFound; when the registered handler returns an error, Execute fails
  with the status Internal whose message is exactly the text of the handler's error,
  and the result wraps nothing (the structure of the handler's error is gone);
  otherwise Execute succeeds with the handler's output envelope, unchanged.
\<close>

theorem API_Execute_status:
  "(req_name request = [] \<longrightarrow>
      API_Execute api request s =
        (Inl (StatusError InvalidArgument ''missing command name''), s)) \<and>
   (req_name request \<noteq> [] \<and> map_of (api_handlers api) (req_name request) = None \<longrightarrow>
      API_Execute api request s =
        (Inl (StatusError NotFound (''unknown command '' @ quote (req_name request))), s)) \<and>
   (req_name request \<noteq> [] \<and> map_of (api_handlers api) (req_name request) = Some h \<and>
    h (req_input request) s = (Inl err, s') \<longrightarrow>
      API_Execute api request s = (Inl (StatusError Internal (Error err)), s') \<and>
      wrapped (StatusError Internal (Error err)) = []) \<and>
   (req_name request \<noteq> [] \<and> map_of (api_handlers api) (req_name request) = Some h \<and>
    h (req_input request) s = (Inr out, s') \<longrightarrow>
      API_Execute api request s = (Inr \<lparr>resp_output = out\<rparr>, s'))"
  by (auto simp: API_Execute_def)

text \<open>The four cases on the requests of the repository's test of Execute.\<close>

theorem API_Execute_status_witness:
  "API_Execute (NewAPI \<lparr>Info_Name = [], Info_Version = [], Info_Commands = []\<rparr> [])
     \<lparr>req_name = [], req_input = None\<rparr> (0::nat) =
     (Inl (StatusError InvalidArgument ''missing command name''), 0) \<and>
   API_Execute (NewAPI \<lparr>Info_Name = [], Info_Version = [], Info_Commands = []\<rparr> [])
     \<lparr>req_name = ''test'', req_input = None\<rparr> (0::nat) =
     (Inl (StatusError NotFound (''unknown command '' @ quote ''test'')), 0) \<and>
   API_Execute
     (NewAPI \<lparr>Info_Name = [], Info_Version = [], Info_Commands = []\<rparr> [(''test'', failing)])
     \<lparr>req_name = ''test'', req_input = None\<rparr> (0::nat) =
     (Inl (StatusError Internal ''EOF''), 0) \<and>
   API_Execute
     (NewAPI \<lparr>Info_Name = [], Info_Version = [], Info_Commands = []\<rparr> [(''test'', succeeding)])
     \<lparr>req_name = ''test'', req_input = None\<rparr> (0::nat) =
     (Inr \<lparr>resp_output = Some \<lparr>type_url = ''type.googleapis.com/google.protobuf.Duration'',
                                wire_bytes = ''1s''\<rparr>\<rparr>, 0)"
  using
    API_Execute_status [where request = "\<lparr>req_name = [], req_input = None\<rparr>"
      and api = "NewAPI \<lparr>Info_Name = [], Info_Version = [], Info_Commands = []\<rparr> []"
      and s = "0::nat"]
    API_Execute_status [where request = "\<lparr>req_name = ''test'', req_input = None\<rparr>"
      and api = "NewAPI \<lparr>Info_Name = [], Info_Version = [], Info_Commands = []\<rparr> []"
      and s = "0::nat"]
    API_Execute_status [where request = "\<lparr>req_name = ''test'', req_input = None\<rparr>"
      and api = "NewAPI \<lparr>Info_Name = [], Info_Version = [], Info_Commands = []\<rparr>
                   [(''test'', failing)]"
      and s = "0::nat" and h = failing and err = "ErrorString ''EOF''" and s' = "0::nat"]
    API_Execute_status [where request = "\<lparr>req_name = ''test'', req_input = None\<rparr>"
      and api = "NewAPI \<lparr>Info_Name = [], Info_Version = [], Info_Commands = []\<rparr>
                   [(''test'', succeeding)]"
      and s = "0::nat" and h = succeeding and s' = "0::nat"
      and out = "Some \<lparr>type_url = ''type.googleapis.com/google.protobuf.Duration'',
                            wire_bytes = ''1s''\<rparr>"]
  by (simp add: NewAPI_def failing_def succeeding_def)

section \<open>Stat and the frame of Execute\<close>

lemma serve_keeps_api: "srv_api (snd (serve srv c)) = srv_api srv"
  by (cases c) (auto split: prod.splits)

lemma serve_all_keeps_api: "srv_api (snd (serve_all srv cs)) = srv_api srv"
proof (induction cs arbitrary: srv)
  case Nil
  then show ?case by simp
next
  case (Cons c cs)
  obtain r srv' where 1: "serve srv c = (r, srv')" by (cases "serve srv c")
  obtain rs srv'' where 2: "serve_all srv' cs = (rs, srv'')" by (cases "serve_all srv' cs")
  have "srv_api srv' = srv_api srv" using serve_keeps_api [of srv c] 1 by simp
  moreover have "srv_api srv'' = srv_api srv'" using Cons.IH [of srv'] 2 by simp
  ultimately show ?case using 1 2 by simp
qed

lemma serve_all_stat_reply:
  "StatReply r \<in> set (fst (serve_all srv cs)) \<Longrightarrow> r = API_Stat (srv_api srv)"
proof (induction cs arbitrary: srv)
  case Nil
  then show ?case by simp
next
  case (Cons c cs)
  obtain r0 srv' where 1: "serve srv c = (r0, srv')" by (cases "serve srv c")
  obtain rs srv'' where 2: "serve_all srv' cs = (rs, srv'')" by (cases "serve_all srv' cs")
  have api: "srv_api srv' = srv_api srv" using serve_keeps_api [of srv c] 1 by simp
  from Cons.prems 1 2 have "StatReply r = r0 \<or> StatReply r \<in> set rs" by simp
  then show ?case
  proof
    assume "StatReply r = r0"
    with 1 show ?thesis by (cases c) (auto split: prod.splits)
  next
    assume "StatReply r \<in> set rs"
    with Cons.IH [of srv'] 2 api show ?thesis by simp
  qed
qed

text \<open>
  C7. Stat never returns an error and returns the name, the version and the command
  list of the server's info as they are. No sequence of calls, of Execute (failing or
  not) and of Stat in any order, changes the server's info or handler map: the API after
  the calls is the API before them, Stat answers after them what it answers before, and
  every answer to a Stat call among them is that same answer.
\<close>

theorem Stat_frame:
  "API_Stat (srv_api srv) =
     Inr \<lparr>stat_name = Info_Name (api_info (srv_api srv)),
          stat_version = Info_Version (api_info (srv_api srv)),
          stat_commands = Info_Commands (api_info (srv_api srv))\<rparr> \<and>
   srv_api (snd (serve_all srv calls)) = srv_api srv \<and>
   API_Stat (srv_api (snd (serve_all srv calls))) = API_Stat (srv_api srv) \<and>
   (\<forall>r. StatReply r \<in> set (fst (serve_all srv calls)) \<longrightarrow> r = API_Stat (srv_api srv))"
  using serve_all_stat_reply [of _ srv calls]
  by (auto simp: serve_all_keeps_api API_Stat_def)

text \<open>Two Stat calls between a failing and a dispatched Execute on the test plugin.\<close>

theorem Stat_frame_witness:
  "fst (serve_all \<lparr>srv_api = startPlugin test_plugin ''v0.1.0'', srv_state = ()\<rparr>
     [CallExecute \<lparr>req_name = ''missing'', req_input = None\<rparr>,
      CallStat,
      CallExecute \<lparr>req_name = ''pingpong'', req_input = None\<rparr>,
      CallStat]) ! 3 =
   StatReply (Inr \<lparr>stat_name = ''test_plugin'', stat_version = ''v0.1.0'',
                    stat_commands = [''pingpong'']\<rparr>) \<and>
   fst (serve_all \<lparr>srv_api = startPlugin test_plugin ''v0.1.0'', srv_state = ()\<rparr>
     [CallExecute \<lparr>req_name = ''missing'', req_input = None\<rparr>,
      CallStat,
      CallExecute \<lparr>req_name = ''pingpong'', req_input = None\<rparr>,
      CallStat]) ! 1 =
   StatReply (Inr \<lparr>stat_name = ''test_plugin'', stat_version = ''v0.1.0'',
                    stat_commands = [''pingpong'']\<rparr>)"
proof -
  let ?srv = "\<lparr>srv_api = startPlugin test_plugin ''v0.1.0'', srv_state = ()\<rparr>"
  let ?calls = "[CallExecute \<lparr>req_name = ''missing'', req_input = None\<rparr>,
      CallStat,
      CallExecute \<lparr>req_name = ''pingpong'', req_input = None\<rparr>,
      CallStat]"
  have info: "API_Stat (srv_api ?srv) =
      Inr \<lparr>stat_name = ''test_plugin'', stat_version = ''v0.1.0'',
           stat_commands = [''pingpong'']\<rparr>"
    by (simp add: API_Stat_def startPlugin_def test_plugin_def NewAPI_def as_handler_def
        Command_Name_def pingpong_def)
  have len: "length (fst (serve_all ?srv ?calls)) = 4"
    by (simp split: prod.splits)
  have 3: "\<exists>r. fst (serve_all ?srv ?calls) ! 3 = StatReply r"
    by (simp split: prod.splits)
  have 1: "\<exists>r. fst (serve_all ?srv ?calls) ! 1 = StatReply r"
    by (simp split: prod.splits)
  from 3 obtain r3 where r3: "fst (serve_all ?srv ?calls) ! 3 = StatReply r3" ..
  from 1 obtain r1 where r1: "fst (serve_all ?srv ?calls) ! 1 = StatReply r1" ..
  have "StatReply r3 \<in> set (fst (serve_all ?srv ?calls))"
    using len r3 nth_mem [of 3 "fst (serve_all ?srv ?calls)"] by simp
  moreover have "StatReply r1 \<in> set (fst (serve_all ?srv ?calls))"
    using len r1 nth_mem [of 1 "fst (serve_all ?srv ?calls)"] by simp
  ultimately have "r3 = API_Stat (srv_api ?srv)" "r1 = API_Stat (srv_api ?srv)"
    using Stat_frame [of ?srv ?calls] by blast+
  with r3 r1 info show ?thesis by simp
qed

section \<open>The registry and the info of a started plugin\<close>

lemma register_info:
  "fst (register cs (i, h)) = i\<lparr>Info_Commands := Info_Commands i @ map ch_Name cs\<rparr>"
  by (induction cs arbitrary: i h) auto

lemma register_distinct:
  "distinct (map fst h) \<Longrightarrow> distinct (map fst (snd (register cs (i, h))))"
  by (induction cs arbitrary: i h) (auto simp: distinct_update)

lemma register_keys:
  "fst ` set (snd (register cs (i, h))) = fst ` set h \<union> ch_Name ` set cs"
  by (induction cs arbitrary: i h) (auto simp: dom_update)

lemma register_lookup:
  "map_of (snd (register cs (i, h))) n =
     (if filter (\<lambda>c. ch_Name c = n) cs = [] then map_of h n
      else Some (ch_Execute (last (filter (\<lambda>c. ch_Name c = n) cs))))"
  by (induction cs arbitrary: i h) (auto simp: update_conv')


lemma register_length:
  "distinct (map fst h) \<Longrightarrow>
   length (snd (register cs (i, h))) = card (fst ` set h \<union> ch_Name ` set cs)"
proof -
  assume "distinct (map fst h)"
  then have d: "distinct (map fst (snd (register cs (i, h))))"
    by (rule register_distinct)
  have "length (snd (register cs (i, h))) = length (map fst (snd (register cs (i, h))))"
    by simp
  also have "\<dots> = card (set (map fst (snd (register cs (i, h)))))"
    using d by (simp only: distinct_card)
  also have "\<dots> = card (fst ` set h \<union> ch_Name ` set cs)"
    by (simp add: register_keys)
  finally show ?thesis .
qed

lemma startPlugin_handlers:
  "api_handlers (startPlugin config version) =
     snd (register (Config_Commands config)
       (\<lparr>Info_Name = Config_Name config, Info_Version = version, Info_Commands = []\<rparr>, []))"
  by (simp add: startPlugin_def NewAPI_def case_prod_beta)

lemma startPlugin_info:
  "api_info (startPlugin config version) =
     \<lparr>Info_Name = Config_Name config, Info_Version = version,
      Info_Commands = map ch_Name (Config_Commands config)\<rparr>"
  using register_info [of "Config_Commands config"
      "\<lparr>Info_Name = Config_Name config, Info_Version = version, Info_Commands = []\<rparr>" "[]"]
  by (simp add: startPlugin_def NewAPI_def case_prod_beta)

text \<open>
  C8. For every configuration, the start of the plugin builds a registry with no two
  entries for one name, in which the name of every configured command is mapped to the
  handler of a configured command of that name, and whose names are the configured
  ones; and an info whose command list is collected in the order of the configuration:
  the i-th name reported is the name of the i-th descriptor.
\<close>

theorem startPlugin_registry:
  "distinct (map fst (api_handlers (startPlugin config version))) \<and>
   (\<forall>c \<in> set (Config_Commands config).
      \<exists>c' \<in> set (Config_Commands config).
        ch_Name c' = ch_Name c \<and>
        map_of (api_handlers (startPlugin config version)) (ch_Name c) = Some (ch_Execute c')) \<and>
   fst ` set (api_handlers (startPlugin config version)) = ch_Name ` set (Config_Commands config) \<and>
   Info_Commands (api_info (startPlugin config version)) = map ch_Name (Config_Commands config) \<and>
   length (Info_Commands (api_info (startPlugin config version))) =
     length (Config_Commands config) \<and>
   (\<forall>i < length (Config_Commands config).
      Info_Commands (api_info (startPlugin config version)) ! i =
        ch_Name (Config_Commands config ! i))"
proof -
  let ?cs = "Config_Commands config"
  have look: "\<exists>c' \<in> set ?cs. ch_Name c' = ch_Name c \<and>
      map_of (api_handlers (startPlugin config version)) (ch_Name c) = Some (ch_Execute c')"
    if c: "c \<in> set ?cs" for c
  proof -
    let ?f = "filter (\<lambda>x. ch_Name x = ch_Name c) ?cs"
    from c have ne: "?f \<noteq> []" by (auto simp: filter_empty_conv)
    then have "last ?f \<in> set ?f" by (rule last_in_set)
    then have "last ?f \<in> set ?cs" "ch_Name (last ?f) = ch_Name c" by auto
    moreover have "map_of (api_handlers (startPlugin config version)) (ch_Name c) =
        Some (ch_Execute (last ?f))"
      using ne by (simp add: startPlugin_handlers register_lookup)
    ultimately show ?thesis by blast
  qed
  show ?thesis
    using look
    by (simp add: startPlugin_handlers startPlugin_info register_distinct register_keys)
qed

text \<open>The test plugin's command and a second one.\<close>

theorem startPlugin_registry_witness:
  "distinct (map fst (api_handlers (startPlugin two_commands ''v0.1.0''))) \<and>
   map_of (api_handlers (startPlugin two_commands ''v0.1.0'')) ''pingpong'' =
     Some (Command_Execute example_codec pingpong) \<and>
   map_of (api_handlers (startPlugin two_commands ''v0.1.0'')) ''test'' =
     Some (Command_Execute example_codec (echo ''test'')) \<and>
   Info_Commands (api_info (startPlugin two_commands ''v0.1.0'')) = [''pingpong'', ''test''] \<and>
   Info_Commands (api_info (startPlugin two_commands ''v0.1.0'')) ! 1 = ''test''"
  using startPlugin_registry [of two_commands "''v0.1.0''"]
  by (simp add: two_commands_def as_handler_def Command_Name_def pingpong_def echo_def)

text \<open>
  C10. A configuration with two or more descriptors of one name is not rejected (the
  registration has no failing branch): the registry maps every configured name to the
  handler of the last descriptor of that name, the command list of the info has one
  entry for every descriptor, and so the list that Stat reports names a command more
  than once and is longer than the registry.
\<close>

theorem startPlugin_duplicates:
  assumes "\<not> distinct (map ch_Name (Config_Commands config))"
  shows "(\<forall>n \<in> set (map ch_Name (Config_Commands config)).
            map_of (api_handlers (startPlugin config version)) n =
              Some (ch_Execute (last (filter (\<lambda>c. ch_Name c = n) (Config_Commands config))))) \<and>
         Info_Commands (api_info (startPlugin config version)) =
           map ch_Name (Config_Commands config) \<and>
         API_Stat (startPlugin config version) =
           Inr \<lparr>stat_name = Config_Name config, stat_version = version,
                stat_commands = map ch_Name (Config_Commands config)\<rparr> \<and>
         \<not> distinct (Info_Commands (api_info (startPlugin config version))) \<and>
         length (api_handlers (startPlugin config version)) <
           length (Info_Commands (api_info (startPlugin config version)))"
proof -
  let ?cs = "Config_Commands config"
  have "card (set (map ch_Name ?cs)) \<noteq> length (map ch_Name ?cs)"
    using assms card_distinct by blast
  moreover have "card (set (map ch_Name ?cs)) \<le> length (map ch_Name ?cs)"
    by (rule card_length)
  ultimately have less: "card (ch_Name ` set ?cs) < length ?cs" by simp
  have len: "length (api_handlers (startPlugin config version)) = card (ch_Name ` set ?cs)"
    by (simp add: startPlugin_handlers register_length)
  have look: "map_of (api_handlers (startPlugin config version)) n =
      Some (ch_Execute (last (filter (\<lambda>c. ch_Name c = n) ?cs)))"
    if "n \<in> set (map ch_Name ?cs)" for n
  proof -
    from that have "filter (\<lambda>c. ch_Name c = n) ?cs \<noteq> []"
      by (auto simp: filter_empty_conv)
    then show ?thesis by (simp add: startPlugin_handlers register_lookup)
  qed
  show ?thesis
    using assms less len look by (simp add: startPlugin_info API_Stat_def)
qed

text \<open>Two descriptors named test: the second one is registered, Stat lists the name twice.\<close>

theorem startPlugin_duplicates_witness:
  "\<not> distinct (map ch_Name (Config_Commands same_name_twice)) \<and>
   map_of (api_handlers (startPlugin same_name_twice ''v0.1.0'')) ''test'' =
     Some (Command_Execute example_codec (pingpong\<lparr>cmd_Use := ''test''\<rparr>)) \<and>
   API_Stat (startPlugin same_name_twice ''v0.1.0'') =
     Inr \<lparr>stat_name = ''test_plugin'', stat_version = ''v0.1.0'',
          stat_commands = [''test'', ''test'']\<rparr> \<and>
   length (api_handlers (startPlugin same_name_twice ''v0.1.0'')) = 1"
proof -
  have d: "\<not> distinct (map ch_Name (Config_Commands same_name_twice))"
    by (simp add: same_name_twice_def as_handler_def Command_Name_def pingpong_def echo_def)
  have l: "length (api_handlers (startPlugin same_name_twice ''v0.1.0'')) = 1"
    by (simp add: startPlugin_def NewAPI_def same_name_twice_def as_handler_def
        Command_Name_def pingpong_def echo_def)
  show ?thesis
    using d l startPlugin_duplicates [OF d, of "''v0.1.0''"]
    by (simp add: same_name_twice_def as_handler_def Command_Name_def pingpong_def echo_def)
qed

section \<open>The command adapter\<close>

text \<open>
  C9. For every command and every input envelope: when the envelope cannot be decoded,
  or decodes to a message that is not of the command's input type, Execute returns an
  error and does not call the handler (the result is the same whatever the handler is,
  and the handlers' state is the one before the call); and when the handler returns an
  error, Execute returns that very error, with the state the handler left.
\<close>

theorem Command_Execute_errors:
  "(UnmarshalNew cd inp = Inl err \<longrightarrow>
      (\<forall>run. Command_Execute cd (ch\<lparr>cmd_Run := run\<rparr>) inp s = (Inl err, s))) \<and>
   (UnmarshalNew cd inp = Inr m \<and> \<not> cmd_Input ch m \<longrightarrow>
      (\<forall>run. Command_Execute cd (ch\<lparr>cmd_Run := run\<rparr>) inp s =
         (Inl (Errorf [Lit ''invalid input type for command '', Q (cmd_Use ch)]), s))) \<and>
   (UnmarshalNew cd inp = Inr m \<and> cmd_Input ch m \<and> cmd_Run ch m s = (Inl err, s') \<longrightarrow>
      Command_Execute cd ch inp s = (Inl err, s'))"
  by (simp add: Command_Execute_def)

text \<open>An unregistered type and a wrong type sent to the counting command (whose count
  stays 0, where a call of the handler makes it 1), and the error of the test plugin's
  handler on the input pung.\<close>

theorem Command_Execute_errors_witness:
  "Command_Execute example_codec counting
     (Some \<lparr>type_url = ''type.googleapis.com/example.Unknown'', wire_bytes = []\<rparr>) 0 =
     (Inl (ProtoError ''not found''), 0) \<and>
   Command_Execute example_codec counting
     (Some \<lparr>type_url = ''type.googleapis.com/google.protobuf.Duration'',
            wire_bytes = ''3600s''\<rparr>) 0 =
     (Inl (Errorf [Lit ''invalid input type for command '', Q ''count'']), 0) \<and>
   Command_Execute example_codec counting
     (Some \<lparr>type_url = ''type.googleapis.com/google.protobuf.StringValue'',
            wire_bytes = ''ping''\<rparr>) 0 =
     (Inr (Some \<lparr>type_url = ''type.googleapis.com/google.protobuf.StringValue'',
                 wire_bytes = ''ping''\<rparr>), 1) \<and>
   Command_Execute example_codec pingpong
     (Some \<lparr>type_url = ''type.googleapis.com/google.protobuf.StringValue'',
            wire_bytes = ''pung''\<rparr>) () =
     (Inl (Errorf [Lit ''invalid input '', Q ''pung'',
                   Lit ('', expected '' @ quote ''ping'' @ '' or '' @ quote ''pong'')]), ())"
proof -
  let ?unknown = "Some \<lparr>type_url = ''type.googleapis.com/example.Unknown'', wire_bytes = []\<rparr>"
  let ?duration = "Some \<lparr>type_url = ''type.googleapis.com/google.protobuf.Duration'',
            wire_bytes = ''3600s''\<rparr>"
  let ?pung = "Some \<lparr>type_url = ''type.googleapis.com/google.protobuf.StringValue'',
            wire_bytes = ''pung''\<rparr>"
  have u: "UnmarshalNew example_codec ?unknown = Inl (ProtoError ''not found'')"
    by (simp add: UnmarshalNew_def example_codec_def url_name_def)
  have d: "UnmarshalNew example_codec ?duration = Inr (''google.protobuf.Duration'', ''3600s'')"
    by (simp add: UnmarshalNew_def example_codec_def url_name_def)
  have p: "UnmarshalNew example_codec ?pung = Inr (''google.protobuf.StringValue'', ''pung'')"
    by (simp add: UnmarshalNew_def example_codec_def url_name_def)
  have 1: "Command_Execute example_codec (counting\<lparr>cmd_Run := cmd_Run counting\<rparr>) ?unknown 0 =
      (Inl (ProtoError ''not found''), 0)"
    using Command_Execute_errors [where cd = example_codec and inp = ?unknown
        and err = "ProtoError ''not found''" and ch = counting and s = 0] u
    by blast
  have 2: "Command_Execute example_codec (counting\<lparr>cmd_Run := cmd_Run counting\<rparr>) ?duration 0 =
      (Inl (Errorf [Lit ''invalid input type for command '', Q (cmd_Use counting)]), 0)"
    using Command_Execute_errors [where cd = example_codec and inp = ?duration
        and m = "(''google.protobuf.Duration'', ''3600s'')" and ch = counting and s = 0] d
    by (simp add: counting_def)
  have 3: "Command_Execute example_codec pingpong ?pung () =
     (Inl (Errorf [Lit ''invalid input '', Q ''pung'',
                   Lit ('', expected '' @ quote ''ping'' @ '' or '' @ quote ''pong'')]), ())"
    using Command_Execute_errors [where cd = example_codec and inp = ?pung
        and m = "(''google.protobuf.StringValue'', ''pung'')" and ch = pingpong and s = "()"
        and s' = "()"
        and err = "Errorf [Lit ''invalid input '', Q ''pung'',
                   Lit ('', expected '' @ quote ''ping'' @ '' or '' @ quote ''pong'')]"] p
    by (simp add: pingpong_def PingPong_def)
  have 4: "Command_Execute example_codec counting
     (Some \<lparr>type_url = ''type.googleapis.com/google.protobuf.StringValue'',
            wire_bytes = ''ping''\<rparr>) 0 =
     (Inr (Some \<lparr>type_url = ''type.googleapis.com/google.protobuf.StringValue'',
                 wire_bytes = ''ping''\<rparr>), 1)"
    by (simp add: Command_Execute_def UnmarshalNew_def example_codec_def url_name_def
        counting_def anypb_New_def)
  from 1 2 3 4 show ?thesis by (simp add: counting_def)
qed

section \<open>Closing a handle\<close>

lemma Is_refl: "Is e e"
  by (cases e) simp_all

text \<open>
  C6. For every handle, with or without a client and with or without a process: Close
  closes the client connection exactly when there is a client and signals the process
  exactly when there is one, whatever the other step returns; it returns nil only if
  every step it made succeeded; and the error it returns wraps the error of each step
  that failed.
\<close>

theorem Plugin_Close_both:
  "snd (Plugin_Close p) =
     (case p_client p of None \<Rightarrow> [] | Some c \<Rightarrow> [ConnClosed]) @
     (case cmd_Process (p_command p) of None \<Rightarrow> [] | Some pr \<Rightarrow> [SignalSent]) \<and>
   (fst (Plugin_Close p) = None \<longleftrightarrow>
      (case p_client p of None \<Rightarrow> True | Some c \<Rightarrow> conn_Close c = None) \<and>
      (case cmd_Process (p_command p) of None \<Rightarrow> True | Some pr \<Rightarrow> Signal_SIGTERM pr = None)) \<and>
   (\<forall>c e. p_client p = Some c \<and> conn_Close c = Some e \<longrightarrow>
      (\<exists>r. fst (Plugin_Close p) = Some r \<and> Is r e)) \<and>
   (\<forall>pr e. cmd_Process (p_command p) = Some pr \<and> Signal_SIGTERM pr = Some e \<longrightarrow>
      (\<exists>r. fst (Plugin_Close p) = Some r \<and> Is r e))"
  by (auto simp: Plugin_Close_def errors_Join_def Client_Close_def Is_refl
      split: option.splits)

text \<open>A handle that never got its client, one whose two steps both fail, and one that
  closes cleanly.\<close>

theorem Plugin_Close_both_witness:
  "Plugin_Close (example_handle (None :: unit Client option)
      (Some \<lparr>Signal_SIGTERM = Some (ErrorString ''os: process already finished'')\<rparr>)) =
     (Some (JoinError [ErrorString ''os: process already finished'']), [SignalSent]) \<and>
   Plugin_Close (example_handle
      (Some (broken_client (ErrorString ''grpc: the client connection is closing'')
         :: unit Client))
      (Some \<lparr>Signal_SIGTERM = Some (ErrorString ''os: process already finished'')\<rparr>)) =
     (Some (JoinError [JoinError [ErrorString ''grpc: the client connection is closing''],
                       ErrorString ''os: process already finished'']),
      [ConnClosed, SignalSent]) \<and>
   Plugin_Close (example_handle
      (Some (serving_client (startPlugin test_plugin ''v0.1.0'') :: unit Client))
      (Some \<lparr>Signal_SIGTERM = None\<rparr>)) =
     (None, [ConnClosed, SignalSent])"
  using
    Plugin_Close_both [of "example_handle (None :: unit Client option)
      (Some \<lparr>Signal_SIGTERM = Some (ErrorString ''os: process already finished'')\<rparr>)"]
    Plugin_Close_both [of "example_handle
      (Some (broken_client (ErrorString ''grpc: the client connection is closing'')
         :: unit Client))
      (Some \<lparr>Signal_SIGTERM = Some (ErrorString ''os: process already finished'')\<rparr>)"]
    Plugin_Close_both [of "example_handle
      (Some (serving_client (startPlugin test_plugin ''v0.1.0'') :: unit Client))
      (Some \<lparr>Signal_SIGTERM = None\<rparr>)"]
  by (simp add: Plugin_Close_def example_handle_def broken_client_def serving_client_def
      errors_Join_def Client_Close_def)

section \<open>Exec on the host\<close>

lemma status_Code_StatusError: "status_Code (Some (StatusError c m)) = c"
  by (simp add: status_Code_def status_FromError_def)

lemma status_FromError_StatusError: "status_FromError (StatusError c m) = ((c, m), True)"
  by (simp add: status_FromError_def)

lemma status_Code_ProtoError: "status_Code (Some (ProtoError t)) = Unknown"
  by (simp add: status_Code_def status_FromError_def)

lemma status_FromError_ProtoError:
  "status_FromError (ProtoError t) = ((Unknown, t), False)"
  by (simp add: status_FromError_def)

lemma Client_Execute_marshalled:
  "anypb_New cd inp = Inr i \<Longrightarrow>
   Client_Execute cd c name inp outp s =
     (case inner_Execute c \<lparr>req_name = name, req_input = Some i\<rparr> s of
        (Inl err, s') \<Rightarrow> (Inl err, s')
      | (Inr response, s') \<Rightarrow>
          (case UnmarshalTo cd (resp_output response) outp of
             Inl err \<Rightarrow> (Inl err, s')
           | Inr m \<Rightarrow> (Inr m, s')))"
  by (simp add: Client_Execute_def)

lemma anypb_New_cases:
  "(\<exists>t. anypb_New cd inp = Inl (ProtoError t)) \<or> (\<exists>i. anypb_New cd inp = Inr i)"
  by (cases "marshal cd inp") (simp_all add: anypb_New_def)

lemma UnmarshalTo_cases:
  "(\<exists>t. UnmarshalTo cd src dst = Inl (ProtoError t)) \<or> (\<exists>m. UnmarshalTo cd src dst = Inr m)"
  by (auto simp: UnmarshalTo_def split: option.splits sum.splits)

text \<open>
  C3. For every call of Exec on a handle with a client, once the input is in its
  envelope: when the transport answers with the status NotFound, Exec returns an error
  that wraps ErrUnknownCommand and carries the name; when it answers with any other
  status, Exec returns a plain error whose text is the message of the status, which
  does not wrap ErrUnknownCommand; when it answers with an envelope that decodes into
  the output pointer, Exec returns nil and the pointer holds the decoded message. And
  Exec with the empty name against the plugin's server returns an error that does not
  wrap ErrUnknownCommand: the text of InvalidArgument when the input was marshalled.
\<close>

theorem Plugin_Exec_errors:
  "(p_client p = Some c \<and> anypb_New cd inp = Inr i \<and>
    inner_Execute c \<lparr>req_name = name, req_input = Some i\<rparr> s =
      (Inl (StatusError NotFound msg), s') \<longrightarrow>
      Plugin_Exec cd p name inp outp s =
        Some (Inl (Errorf [W ErrUnknownCommand, Lit '': '', Q name]), s') \<and>
      Is (Errorf [W ErrUnknownCommand, Lit '': '', Q name]) ErrUnknownCommand) \<and>
   (p_client p = Some c \<and> anypb_New cd inp = Inr i \<and>
    inner_Execute c \<lparr>req_name = name, req_input = Some i\<rparr> s =
      (Inl (StatusError code msg), s') \<and> code \<noteq> NotFound \<longrightarrow>
      Plugin_Exec cd p name inp outp s = Some (Inl (ErrorString msg), s') \<and>
      \<not> Is (ErrorString msg) ErrUnknownCommand) \<and>
   (p_client p = Some c \<and> anypb_New cd inp = Inr i \<and>
    inner_Execute c \<lparr>req_name = name, req_input = Some i\<rparr> s = (Inr response, s') \<and>
    UnmarshalTo cd (resp_output response) outp = Inr v \<longrightarrow>
      Plugin_Exec cd p name inp outp s = Some (Inr v, s')) \<and>
   (p_client p = Some (serving_client api) \<longrightarrow>
      (\<exists>e. Plugin_Exec cd p [] inp outp s = Some (Inl e, s) \<and>
           \<not> Is e ErrUnknownCommand \<and>
           (\<forall>i. anypb_New cd inp = Inr i \<longrightarrow> e = ErrorString ''missing command name'')))"
proof -
  have empty: "\<exists>e. Plugin_Exec cd p [] inp outp s = Some (Inl e, s) \<and>
           \<not> Is e ErrUnknownCommand \<and>
           (\<forall>i. anypb_New cd inp = Inr i \<longrightarrow> e = ErrorString ''missing command name'')"
    if c: "p_client p = Some (serving_client api)"
  proof -
    from anypb_New_cases [of cd inp] show ?thesis
    proof
      assume "\<exists>t. anypb_New cd inp = Inl (ProtoError t)"
      then obtain t where t: "anypb_New cd inp = Inl (ProtoError t)" ..
      then have "Plugin_Exec cd p [] inp outp s = Some (Inl (ProtoError t), s)"
        using c
        by (simp add: Plugin_Exec_def Client_Execute_def status_Code_ProtoError
            status_FromError_ProtoError)
      with t show ?thesis by simp
    next
      assume "\<exists>i. anypb_New cd inp = Inr i"
      then obtain i where i: "anypb_New cd inp = Inr i" ..
      then have "Plugin_Exec cd p [] inp outp s =
          Some (Inl (ErrorString ''missing command name''), s)"
        using c
        by (simp add: Plugin_Exec_def Client_Execute_def serving_client_def API_Execute_def
            status_Code_StatusError status_FromError_StatusError)
      then show ?thesis by simp
    qed
  qed
  show ?thesis
    using empty
    by (simp add: Plugin_Exec_def Client_Execute_marshalled status_Code_StatusError
        status_FromError_StatusError)
qed

text \<open>The calls of the repository's test on the test plugin: an unknown command, the
  input pung, the input ping, and the empty name.\<close>

theorem Plugin_Exec_errors_witness:
  "Plugin_Exec example_codec test_handle ''unknown'' (StringValue ''pong'')
     ''google.protobuf.StringValue'' () =
     Some (Inl (Errorf [W ErrUnknownCommand, Lit '': '', Q ''unknown'']), ()) \<and>
   Plugin_Exec example_codec test_handle ''pingpong'' (StringValue ''pung'')
     ''google.protobuf.StringValue'' () =
     Some (Inl (ErrorString (''invalid input '' @ quote ''pung'' @ '', expected '' @
                  quote ''ping'' @ '' or '' @ quote ''pong'')), ()) \<and>
   Plugin_Exec example_codec test_handle ''pingpong'' (StringValue ''ping'')
     ''google.protobuf.StringValue'' () =
     Some (Inr (StringValue ''pong''), ()) \<and>
   Plugin_Exec example_codec test_handle [] (StringValue ''ping'')
     ''google.protobuf.StringValue'' () =
     Some (Inl (ErrorString ''missing command name''), ())"
proof -
  let ?api = "startPlugin test_plugin ''v0.1.0'' :: unit API"
  let ?c = "serving_client ?api"
  let ?t = "''google.protobuf.StringValue''"
  let ?url = "''type.googleapis.com/google.protobuf.StringValue''"
  have c: "p_client test_handle = Some ?c"
    by (simp add: test_handle_def example_handle_def)
  have new: "anypb_New example_codec (StringValue v) = Inr \<lparr>type_url = ?url, wire_bytes = v\<rparr>"
    for v
    by (simp add: anypb_New_def example_codec_def StringValue_def)
  have handlers: "api_handlers ?api = [(''pingpong'', Command_Execute example_codec pingpong)]"
    by (simp add: startPlugin_def NewAPI_def test_plugin_def as_handler_def Command_Name_def
        pingpong_def)
  have dec: "UnmarshalNew example_codec (Some \<lparr>type_url = ?url, wire_bytes = v\<rparr>) =
      Inr (?t, v)" for v
    by (simp add: UnmarshalNew_def example_codec_def url_name_def)
  have unknown: "inner_Execute ?c
      \<lparr>req_name = ''unknown'', req_input = Some \<lparr>type_url = ?url, wire_bytes = ''pong''\<rparr>\<rparr> () =
      (Inl (StatusError NotFound (''unknown command '' @ quote ''unknown'')), ())"
    by (simp add: serving_client_def API_Execute_def handlers)
  have pung: "inner_Execute ?c
      \<lparr>req_name = ''pingpong'', req_input = Some \<lparr>type_url = ?url, wire_bytes = ''pung''\<rparr>\<rparr> () =
      (Inl (StatusError Internal (''invalid input '' @ quote ''pung'' @ '', expected '' @
                  quote ''ping'' @ '' or '' @ quote ''pong'')), ())"
    by (simp add: serving_client_def API_Execute_def handlers Command_Execute_def dec
        pingpong_def PingPong_def)
  have ping: "inner_Execute ?c
      \<lparr>req_name = ''pingpong'', req_input = Some \<lparr>type_url = ?url, wire_bytes = ''ping''\<rparr>\<rparr> () =
      (Inr \<lparr>resp_output = Some \<lparr>type_url = ?url, wire_bytes = ''pong''\<rparr>\<rparr>, ())"
    by (simp add: serving_client_def API_Execute_def handlers Command_Execute_def dec
        pingpong_def PingPong_def new)
  have pong: "UnmarshalTo example_codec (Some \<lparr>type_url = ?url, wire_bytes = ''pong''\<rparr>) ?t =
      Inr (StringValue ''pong'')"
    by (simp add: UnmarshalTo_def MessageIs_def suffix_def example_codec_def StringValue_def)
  have 1: "Plugin_Exec example_codec test_handle ''unknown'' (StringValue ''pong'') ?t () =
      Some (Inl (Errorf [W ErrUnknownCommand, Lit '': '', Q ''unknown'']), ())"
    using Plugin_Exec_errors [where p = test_handle and c = ?c and cd = example_codec
        and inp = "StringValue ''pong''" and name = "''unknown''" and s = "()" and s' = "()"
        and i = "\<lparr>type_url = ?url, wire_bytes = ''pong''\<rparr>"
        and msg = "''unknown command '' @ quote ''unknown''" and outp = ?t]
      c new [of "''pong''"] unknown
    by simp
  have 2: "Plugin_Exec example_codec test_handle ''pingpong'' (StringValue ''pung'') ?t () =
      Some (Inl (ErrorString (''invalid input '' @ quote ''pung'' @ '', expected '' @
                  quote ''ping'' @ '' or '' @ quote ''pong'')), ())"
    using Plugin_Exec_errors [where p = test_handle and c = ?c and cd = example_codec
        and inp = "StringValue ''pung''" and name = "''pingpong''" and s = "()" and s' = "()"
        and i = "\<lparr>type_url = ?url, wire_bytes = ''pung''\<rparr>" and code = Internal
        and msg = "''invalid input '' @ quote ''pung'' @ '', expected '' @
                  quote ''ping'' @ '' or '' @ quote ''pong''" and outp = ?t]
      c new [of "''pung''"] pung
    by simp
  have 3: "Plugin_Exec example_codec test_handle ''pingpong'' (StringValue ''ping'') ?t () =
      Some (Inr (StringValue ''pong''), ())"
    using Plugin_Exec_errors [where p = test_handle and c = ?c and cd = example_codec
        and inp = "StringValue ''ping''" and name = "''pingpong''" and s = "()" and s' = "()"
        and i = "\<lparr>type_url = ?url, wire_bytes = ''ping''\<rparr>" and outp = ?t
        and response = "\<lparr>resp_output = Some \<lparr>type_url = ?url, wire_bytes = ''pong''\<rparr>\<rparr>"
        and v = "StringValue ''pong''"]
      c new [of "''ping''"] ping pong
    by simp
  have 4: "Plugin_Exec example_codec test_handle [] (StringValue ''ping'') ?t () =
      Some (Inl (ErrorString ''missing command name''), ())"
    using Plugin_Exec_errors [where p = test_handle and api = ?api and cd = example_codec
        and inp = "StringValue ''ping''" and s = "()" and outp = ?t]
      c new [of "''ping''"]
    by auto
  from 1 2 3 4 show ?thesis by simp
qed

section \<open>The round trip of Exec\<close>

lemma url_name_New:
  "CHR ''/'' \<notin> set n \<Longrightarrow> url_name (''type.googleapis.com/'' @ n) = n"
proof -
  assume n: "CHR ''/'' \<notin> set n"
  have "rev (''type.googleapis.com/'' @ n) = rev n @ (CHR ''/'' # rev ''type.googleapis.com'')"
    by simp
  moreover have "takeWhile (\<lambda>c. c \<noteq> CHR ''/'') (rev n @ (CHR ''/'' # rev ''type.googleapis.com''))
      = rev n"
    using n by (subst takeWhile_append2) auto
  ultimately show ?thesis by (simp only: url_name_def rev_rev_ident)
qed

lemma MessageIs_New:
  "MessageIs \<lparr>type_url = ''type.googleapis.com/'' @ n, wire_bytes = b\<rparr> n"
proof -
  have "(''type.googleapis.com/'' @ n) ! 19 = CHR ''/''"
    by (simp add: nth_append)
  then show ?thesis
    by (simp add: MessageIs_def suffix_def)
qed

lemma UnmarshalNew_New:
  assumes "resolvable cd x" and "lossless cd x" and "anypb_New cd x = Inr i"
  shows "UnmarshalNew cd (Some i) = Inr x"
proof -
  from assms(2) obtain b where b: "marshal cd x = Inr b"
    and u: "unmarshal cd (full_name cd x) b = Inr x"
    by (auto simp: lossless_def split: sum.splits)
  from b assms(3) have i: "i = \<lparr>type_url = ''type.googleapis.com/'' @ full_name cd x,
      wire_bytes = b\<rparr>"
    by (simp add: anypb_New_def)
  from assms(1) have n: "url_name (''type.googleapis.com/'' @ full_name cd x) = full_name cd x"
    and r: "registered cd (full_name cd x)"
    using url_name_New [of "full_name cd x"] by (simp_all add: resolvable_def)
  show ?thesis
    using u r n [simplified] by (simp add: UnmarshalNew_def i Let_def)
qed

lemma UnmarshalTo_New:
  assumes "lossless cd y"
  shows "\<exists>out. anypb_New cd y = Inr out \<and> UnmarshalTo cd (Some out) (full_name cd y) = Inr y"
proof -
  from assms obtain b where b: "marshal cd y = Inr b"
    and u: "unmarshal cd (full_name cd y) b = Inr y"
    by (auto simp: lossless_def split: sum.splits)
  then show ?thesis
    using MessageIs_New [of "full_name cd y" b]
    by (simp add: anypb_New_def UnmarshalTo_def)
qed

lemma lossless_New: "lossless cd x \<Longrightarrow> \<exists>i. anypb_New cd x = Inr i"
  by (auto simp: lossless_def anypb_New_def split: sum.splits)

text \<open>
  C1, as the code has it. For every command registered under a name that is not empty,
  on a handle connected to the plugin's server, and every input of the command's input
  type whose type is registered and which the codec carries without loss: when the
  handler alone returns an output (which the codec carries without loss, the caller's
  output pointer being of its type), Exec returns nil with the pointer holding that
  output; when the handler alone returns an error, Exec returns an error, the plain
  error with the text of the handler's; and the handlers' state after Exec is the state
  the handler alone leaves.
\<close>

theorem Exec_round_trip:
  assumes name: "cmd_Use ch \<noteq> []"
    and reg: "map_of (api_handlers api) (cmd_Use ch) = Some (Command_Execute cd ch)"
    and client: "p_client p = Some (serving_client api)"
    and inp: "cmd_Input ch x" "resolvable cd x" "lossless cd x"
    and run: "cmd_Run ch x s = (r, s')"
    and outp: "\<forall>y. r = Inr y \<longrightarrow> lossless cd y \<and> full_name cd y = outp"
  shows "(\<forall>y. r = Inr y \<longrightarrow> Plugin_Exec cd p (cmd_Use ch) x outp s = Some (Inr y, s')) \<and>
         (\<forall>e. r = Inl e \<longrightarrow>
            Plugin_Exec cd p (cmd_Use ch) x outp s = Some (Inl (ErrorString (Error e)), s'))"
proof -
  from lossless_New [OF inp(3)] obtain i where i: "anypb_New cd x = Inr i" ..
  have dec: "UnmarshalNew cd (Some i) = Inr x"
    using inp(2) inp(3) i by (rule UnmarshalNew_New)
  have ok: "Plugin_Exec cd p (cmd_Use ch) x outp s = Some (Inr y, s')" if y: "r = Inr y" for y
  proof -
    from y outp have "lossless cd y" and t: "full_name cd y = outp" by simp_all
    then obtain out where out: "anypb_New cd y = Inr out"
      and decoded: "UnmarshalTo cd (Some out) outp = Inr y"
      using UnmarshalTo_New [of cd y] by auto
    have "Command_Execute cd ch (Some i) s = (Inr (Some out), s')"
      using dec inp(1) run y out by (simp add: Command_Execute_def)
    then have "API_Execute api \<lparr>req_name = cmd_Use ch, req_input = Some i\<rparr> s =
        (Inr \<lparr>resp_output = Some out\<rparr>, s')"
      using name reg by (simp add: API_Execute_def)
    then show ?thesis
      using client i decoded
      by (simp add: Plugin_Exec_def Client_Execute_def serving_client_def)
  qed
  have bad: "Plugin_Exec cd p (cmd_Use ch) x outp s = Some (Inl (ErrorString (Error e)), s')"
    if e: "r = Inl e" for e
  proof -
    have "Command_Execute cd ch (Some i) s = (Inl e, s')"
      using dec inp(1) run e by (simp add: Command_Execute_def)
    then have "API_Execute api \<lparr>req_name = cmd_Use ch, req_input = Some i\<rparr> s =
        (Inl (StatusError Internal (Error e)), s')"
      using name reg by (simp add: API_Execute_def)
    then show ?thesis
      using client i
      by (simp add: Plugin_Exec_def Client_Execute_def serving_client_def
          status_Code_StatusError status_FromError_StatusError)
  qed
  from ok bad show ?thesis by blast
qed

text \<open>The test plugin's command on ping and on pung, through the whole path.\<close>

theorem Exec_round_trip_witness:
  "Plugin_Exec example_codec test_handle ''pingpong'' (StringValue ''ping'')
     ''google.protobuf.StringValue'' () =
     Some (Inr (StringValue ''pong''), ()) \<and>
   Plugin_Exec example_codec test_handle ''pingpong'' (StringValue ''pung'')
     ''google.protobuf.StringValue'' () =
     Some (Inl (ErrorString (''invalid input '' @ quote ''pung'' @ '', expected '' @
                  quote ''ping'' @ '' or '' @ quote ''pong'')), ())"
proof -
  let ?api = "startPlugin test_plugin ''v0.1.0'' :: unit API"
  let ?t = "''google.protobuf.StringValue''"
  have name: "cmd_Use (pingpong :: (string \<times> string, unit) Command) \<noteq> []"
    by (simp add: pingpong_def)
  have reg: "map_of (api_handlers ?api) (cmd_Use (pingpong :: (string \<times> string, unit) Command)) =
      Some (Command_Execute example_codec pingpong)"
    by (simp add: startPlugin_def NewAPI_def test_plugin_def as_handler_def Command_Name_def
        pingpong_def)
  have c: "p_client test_handle = Some (serving_client ?api)"
    by (simp add: test_handle_def example_handle_def)
  have inp: "cmd_Input (pingpong :: (string \<times> string, unit) Command) (StringValue v)"
    "resolvable example_codec (StringValue v)" "lossless example_codec (StringValue v)" for v
    by (simp_all add: pingpong_def StringValue_def resolvable_def lossless_def example_codec_def)
  have ping: "cmd_Run pingpong (StringValue ''ping'') () = (Inr (StringValue ''pong''), ())"
    by (simp add: pingpong_def PingPong_def StringValue_def)
  have pung: "cmd_Run pingpong (StringValue ''pung'') () =
      (Inl (Errorf [Lit ''invalid input '', Q ''pung'',
                    Lit ('', expected '' @ quote ''ping'' @ '' or '' @ quote ''pong'')]), ())"
    by (simp add: pingpong_def PingPong_def StringValue_def)
  have out1: "\<forall>y. (Inr (StringValue ''pong'') :: error + string \<times> string) = Inr y \<longrightarrow>
      lossless example_codec y \<and> full_name example_codec y = ?t"
    by (simp add: StringValue_def lossless_def example_codec_def)
  have out2: "\<forall>y. (Inl (Errorf [Lit ''invalid input '', Q ''pung'',
        Lit ('', expected '' @ quote ''ping'' @ '' or '' @ quote ''pong'')])
          :: error + string \<times> string) = Inr y \<longrightarrow>
      lossless example_codec y \<and> full_name example_codec y = ?t"
    by simp
  have 1: "Plugin_Exec example_codec test_handle ''pingpong'' (StringValue ''ping'') ?t () =
      Some (Inr (StringValue ''pong''), ())"
    using Exec_round_trip [OF name reg c inp [of "''ping''"] ping out1]
    by (simp add: pingpong_def)
  have 2: "Plugin_Exec example_codec test_handle ''pingpong'' (StringValue ''pung'') ?t () =
      Some (Inl (ErrorString (''invalid input '' @ quote ''pung'' @ '', expected '' @
                  quote ''ping'' @ '' or '' @ quote ''pong'')), ())"
    using Exec_round_trip [OF name reg c inp [of "''pung''"] pung out2]
    by (simp add: pingpong_def)
  from 1 2 show ?thesis by simp
qed

text \<open>
  C1 as stated fails for a command registered under the empty name: the registry holds
  it, its handler alone returns the input, and Exec returns the error of the server's
  guard on empty names.
\<close>

theorem Exec_round_trip_counterexample:
  "map_of (api_handlers (startPlugin nameless ''v0.1.0''))
     (cmd_Use (echo [] :: (string \<times> string, unit) Command)) =
     Some (Command_Execute example_codec (echo [])) \<and>
   cmd_Input (echo [] :: (string \<times> string, unit) Command)
     (''google.protobuf.Timestamp'', ''2026-01-01T00:00:00Z'') \<and>
   resolvable example_codec (''google.protobuf.Timestamp'', ''2026-01-01T00:00:00Z'') \<and>
   lossless example_codec (''google.protobuf.Timestamp'', ''2026-01-01T00:00:00Z'') \<and>
   cmd_Run (echo []) (''google.protobuf.Timestamp'', ''2026-01-01T00:00:00Z'') () =
     (Inr (''google.protobuf.Timestamp'', ''2026-01-01T00:00:00Z''), ()) \<and>
   Plugin_Exec example_codec
     (example_handle (Some (serving_client (startPlugin nameless ''v0.1.0'')))
        (Some \<lparr>Signal_SIGTERM = None\<rparr>))
     (cmd_Use (echo [] :: (string \<times> string, unit) Command))
     (''google.protobuf.Timestamp'', ''2026-01-01T00:00:00Z'')
     ''google.protobuf.Timestamp'' () =
     Some (Inl (ErrorString ''missing command name''), ())"
proof -
  have reg: "api_handlers (startPlugin nameless ''v0.1.0'') =
      [([], Command_Execute example_codec (echo []))]"
    by (simp add: startPlugin_def NewAPI_def nameless_def as_handler_def Command_Name_def
        echo_def)
  have exec: "Plugin_Exec example_codec
     (example_handle (Some (serving_client (startPlugin nameless ''v0.1.0'')))
        (Some \<lparr>Signal_SIGTERM = None\<rparr>))
     [] (''google.protobuf.Timestamp'', ''2026-01-01T00:00:00Z'')
     ''google.protobuf.Timestamp'' () =
     Some (Inl (ErrorString ''missing command name''), ())"
    by (simp add: Plugin_Exec_def example_handle_def Client_Execute_def anypb_New_def
        example_codec_def serving_client_def API_Execute_def status_Code_StatusError
        status_FromError_StatusError)
  have use: "cmd_Use (echo [] :: (string \<times> string, unit) Command) = []"
    by (simp add: echo_def)
  show ?thesis
    unfolding use
    using exec
    by (simp add: reg echo_def resolvable_def lossless_def example_codec_def)
qed

section \<open>The handshake of Use\<close>

text \<open>
  C4, on the code. When Use reaches the handshake and the plugin reports a name other
  than the base name of the path, Use returns no handle and an error that wraps
  ErrUnexpectedName and carries the expected and the reported name. It returns right
  there: the events of the call are the start of the process and the dial of the
  client, and neither the close of the connection nor the signal to the process is
  among them, so the process is left running and the claim's cleanup is not done.
\<close>

theorem Use_unexpected_name:
  assumes "host_Start h path = Inr pr"
    and "host_NewClient h (host_socket h) = Inr c"
    and "Client_Stat c = Inr info"
    and "Info_Name info \<noteq> filepath_Base path"
  shows "Use h path =
           ((None,
             Some (Errorf [W ErrUnexpectedName, Lit '': expected '', Q (filepath_Base path),
                           Lit '', got '', Q (Info_Name info)])),
            [ProcessStarted path, ClientDialed (host_socket h)]) \<and>
         Is (Errorf [W ErrUnexpectedName, Lit '': expected '', Q (filepath_Base path),
                     Lit '', got '', Q (Info_Name info)]) ErrUnexpectedName \<and>
         ConnClosed \<notin> set (snd (Use h path)) \<and>
         SignalSent \<notin> set (snd (Use h path))"
  using assms by (simp add: Use_def)

text \<open>The binary at /tmp/bar whose plugin reports the name foo.\<close>

theorem Use_unexpected_name_witness:
  "Use (host_of (Inr (serving_client
          (startPlugin (test_plugin\<lparr>Config_Name := ''foo''\<rparr>) ''v0.1.0'') :: unit Client)))
     ''/tmp/bar'' =
     ((None,
       Some (Errorf [W ErrUnexpectedName, Lit '': expected '', Q ''bar'',
                     Lit '', got '', Q ''foo''])),
      [ProcessStarted ''/tmp/bar'', ClientDialed ''d3f4u9bmvs1g00a7qf10''])"
proof -
  let ?c = "serving_client (startPlugin (test_plugin\<lparr>Config_Name := ''foo''\<rparr>) ''v0.1.0'')
    :: unit Client"
  let ?h = "host_of (Inr ?c)"
  have start: "host_Start ?h ''/tmp/bar'' = Inr \<lparr>Signal_SIGTERM = None\<rparr>"
    by (simp add: host_of_def)
  have dial: "host_NewClient ?h (host_socket ?h) = Inr ?c"
    by (simp add: host_of_def)
  have stat: "Client_Stat ?c =
      Inr \<lparr>Info_Name = ''foo'', Info_Version = ''v0.1.0'', Info_Commands = [''pingpong'']\<rparr>"
    by (simp add: Client_Stat_def serving_client_def API_Stat_def startPlugin_def NewAPI_def
        test_plugin_def as_handler_def Command_Name_def pingpong_def)
  have base: "filepath_Base ''/tmp/bar'' = ''bar''"
    by (simp add: filepath_Base_def)
  have differ: "Info_Name \<lparr>Info_Name = ''foo'', Info_Version = ''v0.1.0'',
      Info_Commands = [''pingpong'']\<rparr> \<noteq> filepath_Base ''/tmp/bar''"
    by (simp add: base)
  show ?thesis
    using Use_unexpected_name [OF start dial stat differ]
    by (simp add: base host_of_def)
qed

text \<open>
  C5, on the code. After the process has started: when the dial of the client fails,
  Use returns the error of the dial, wrapped, and the only event of the call is the
  start of the process (no signal is sent, the claim's cleanup is not done); when the
  handshake Stat fails, Use closes the connection and signals the process, and returns
  the join of the errors of both steps with the error of Stat.
\<close>

theorem Use_cleanup:
  "(host_Start h path = Inr pr \<and> host_NewClient h (host_socket h) = Inl err \<longrightarrow>
      Use h path =
        ((None,
          Some (Errorf [Lit ''failed to dial plugin '', Q (filepath_Base path), Lit '': '',
                        W err])),
         [ProcessStarted path])) \<and>
   (host_Start h path = Inr pr \<and> host_NewClient h (host_socket h) = Inr c \<and>
    Client_Stat c = Inl err \<longrightarrow>
      Use h path =
        ((None,
          errors_Join [errors_Join [errors_Join [None, conn_Close c], Signal_SIGTERM pr],
                       Some err]),
         [ProcessStarted path, ClientDialed (host_socket h), ConnClosed, SignalSent]))"
  by (simp add: Use_def Plugin_Close_def Client_Close_def)

text \<open>A host whose dial fails, and one whose plugin cannot be reached and whose
  connection fails to close.\<close>

theorem Use_cleanup_witness:
  "Use (host_of (Inl (ErrorString ''grpc: invalid target'')) :: unit host) ''./test_plugin'' =
     ((None,
       Some (Errorf [Lit ''failed to dial plugin '', Q ''test_plugin'', Lit '': '',
                     W (ErrorString ''grpc: invalid target'')])),
      [ProcessStarted ''./test_plugin'']) \<and>
   Use (host_of (Inr (broken_client (ErrorString ''grpc: the client connection is closing'')))
         :: unit host) ''./test_plugin'' =
     ((None,
       Some (JoinError
          [JoinError [JoinError [ErrorString ''grpc: the client connection is closing'']],
           StatusError Unavailable ''connection refused''])),
      [ProcessStarted ''./test_plugin'', ClientDialed ''d3f4u9bmvs1g00a7qf10'',
       ConnClosed, SignalSent])"
  using
    Use_cleanup [where h = "host_of (Inl (ErrorString ''grpc: invalid target'')) :: unit host"
      and path = "''./test_plugin''" and pr = "\<lparr>Signal_SIGTERM = None\<rparr>"
      and err = "ErrorString ''grpc: invalid target''"]
    Use_cleanup [where h = "host_of (Inr (broken_client
          (ErrorString ''grpc: the client connection is closing''))) :: unit host"
      and path = "''./test_plugin''" and pr = "\<lparr>Signal_SIGTERM = None\<rparr>"
      and c = "broken_client (ErrorString ''grpc: the client connection is closing'')"
      and err = "StatusError Unavailable ''connection refused''"]
  by (simp add: host_of_def broken_client_def Client_Stat_def errors_Join_def
      filepath_Base_def)

end
